theory Spec2Isabelle
  imports Main "HOL-Library.Word" "HOL-Library.Sublist"
begin

section \<open>JavaScript strings\<close>

text \<open>
  A JavaScript string is a sequence of UTF-16 code units. Every literal of
  \<^verbatim>\<open>WeatherDisplay.tsx\<close> lies in the Basic Multilingual Plane, so each of its
  characters is exactly one code unit. ASCII literals are written through \<open>ascii\<close>,
  the others by their code units.
\<close>

type_synonym code_unit = "16 word"
type_synonym jsstring = "code_unit list"

definition ascii :: "string \<Rightarrow> jsstring" where
  "ascii s = map (\<lambda>c. of_nat (of_char c)) s"

text \<open>The string literals of the component, in the order they occur in the source.\<close>

definition kw_qing :: jsstring where "kw_qing = [0x6674]"
definition kw_sunny :: jsstring where "kw_sunny = ascii ''sunny''"
definition kw_yun :: jsstring where "kw_yun = [0x4E91]"
definition kw_cloud :: jsstring where "kw_cloud = ascii ''cloud''"
definition kw_yu :: jsstring where "kw_yu = [0x96E8]"
definition kw_rain :: jsstring where "kw_rain = ascii ''rain''"
definition kw_xue :: jsstring where "kw_xue = [0x96EA]"
definition kw_snow :: jsstring where "kw_snow = ascii ''snow''"
definition kw_feng :: jsstring where "kw_feng = [0x98CE]"
definition kw_wind :: jsstring where "kw_wind = ascii ''wind''"

definition str_success :: jsstring where "str_success = ascii ''success''"

definition msg_fetch_data_failed :: jsstring where
  \<comment> \<open>the default of \<^verbatim>\<open>data.message || ...\<close> (line 82)\<close>
  "msg_fetch_data_failed = [0x83B7, 0x53D6, 0x5929, 0x6C14, 0x6570, 0x636E, 0x5931, 0x8D25]"

definition msg_weather_fetch_failed :: jsstring where
  \<comment> \<open>the message of the catch clause (line 86)\<close>
  "msg_weather_fetch_failed = [0x5929, 0x6C14, 0x6570, 0x636E, 0x83B7, 0x53D6, 0x5931, 0x8D25]"

definition txt_loading :: jsstring where
  \<comment> \<open>the text of the loading pill (line 109)\<close>
  "txt_loading = [0x52A0, 0x8F7D, 0x5929, 0x6C14, 0x4E2D, 0x2E, 0x2E, 0x2E]"

definition txt_unavailable :: jsstring where
  \<comment> \<open>the text of the error pill (line 118)\<close>
  "txt_unavailable = [0x5929, 0x6C14, 0x4E0D, 0x53EF, 0x7528]"

definition str_dashes :: jsstring where "str_dashes = ascii ''--''"

definition str_unknown :: jsstring where
  \<comment> \<open>the placeholder of the weather description (lines 126, 132)\<close>
  "str_unknown = [0x672A, 0x77E5]"

definition str_unknown_city :: jsstring where
  \<comment> \<open>the placeholder returned when the snapshot has no \<^verbatim>\<open>data\<close> (line 143)\<close>
  "str_unknown_city = [0x672A, 0x77E5, 0x57CE, 0x5E02]"

definition str_unknown_location :: jsstring where
  \<comment> \<open>the placeholder returned when no location field resolves (line 174)\<close>
  "str_unknown_location = [0x672A, 0x77E5, 0x4F4D, 0x7F6E]"

definition middle_dot :: code_unit where "middle_dot = 0xB7"
definition vertical_bar :: code_unit where "vertical_bar = 0x7C"
definition fullwidth_bar :: code_unit where "fullwidth_bar = 0xFF5C"

definition str_degC :: jsstring where
  \<comment> \<open>the text after the temperature (line 185): degree sign, capital C\<close>
  "str_degC = [0xB0, 0x43]"

subsection \<open>The string operations the component calls\<close>

text \<open>\<^verbatim>\<open>s.includes(t)\<close>: \<open>t\<close> occurs in \<open>s\<close> as a contiguous run of code units.\<close>

fun js_includes :: "jsstring \<Rightarrow> jsstring \<Rightarrow> bool" where
  "js_includes [] t = (t = [])"
| "js_includes (x # xs) t = (prefix t (x # xs) \<or> js_includes xs t)"

text \<open>\<^verbatim>\<open>parts.join(sep)\<close> on an array of strings.\<close>

fun join :: "jsstring \<Rightarrow> jsstring list \<Rightarrow> jsstring" where
  "join sep [] = []"
| "join sep [x] = x"
| "join sep (x # y # ys) = x @ sep @ join sep (y # ys)"

text \<open>
  Truthiness of an optional string: \<^verbatim>\<open>undefined\<close>, \<^verbatim>\<open>null\<close> (both \<open>None\<close>) and the
  empty string are falsy, every other string is truthy.
\<close>

fun truthy :: "jsstring option \<Rightarrow> bool" where
  "truthy None = False"
| "truthy (Some s) = (s \<noteq> [])"

text \<open>\<^verbatim>\<open>xs.filter(Boolean)\<close> on an array of optional strings keeps the truthy ones.\<close>

fun filter_Boolean :: "jsstring option list \<Rightarrow> jsstring list" where
  "filter_Boolean [] = []"
| "filter_Boolean (None # xs) = filter_Boolean xs"
| "filter_Boolean (Some s # xs) = (if s \<noteq> [] then s # filter_Boolean xs else filter_Boolean xs)"

text \<open>\<^verbatim>\<open>s.replace(/[..]/g, sep)\<close> with the ASCII and the fullwidth vertical bar in the class and the middle dot as \<^verbatim>\<open>sep\<close>: every code unit of the class is replaced.\<close>

definition replace_bars :: "jsstring \<Rightarrow> jsstring" where
  "replace_bars s = map (\<lambda>c. if c = vertical_bar \<or> c = fullwidth_bar then middle_dot else c) s"

section \<open>The payload\<close>

text \<open>
  The interface \<^verbatim>\<open>JinriShiciData\<close>. An optional field (\<^verbatim>\<open>?:\<close>) is an \<open>option\<close>, with
  \<open>None\<close> for \<^verbatim>\<open>undefined\<close> and for JSON \<^verbatim>\<open>null\<close>. The component never computes with
  the numbers of the payload, it only hands them to the renderer, so the type of numbers
  is the parameter \<open>'n\<close>. The interface declares \<^verbatim>\<open>message\<close> and \<^verbatim>\<open>data\<close> as required, but
  the component tests both (\<^verbatim>\<open>data.message || ...\<close>, \<^verbatim>\<open>!weatherData.data\<close>), and the
  payload is unchecked JSON, so the model lets them be absent too.
\<close>

record 'n weatherInfo =
  temperature :: "'n option"
  humidity :: "'n option"
  weather :: "jsstring option"
  wind :: "jsstring option"
  airQuality :: "jsstring option"
  region :: "jsstring option"

record 'n payload_data =
  weatherData :: "'n weatherInfo option"
  tags :: "jsstring list option"
  poetryTokens :: "jsstring list option"
  inspirationTokens :: "jsstring list option"
  region_top :: "jsstring option"  \<comment> \<open>\<^verbatim>\<open>data.region\<close>\<close>
  location :: "jsstring option"
  city :: "jsstring option"
  province :: "jsstring option"

record 'n JinriShiciData =
  status :: jsstring
  message :: "jsstring option"
  data :: "'n payload_data option"

section \<open>The icon classifier\<close>

datatype icon = Sun | Cloud | CloudRain | CloudSnow | Wind

text \<open>
  \<^verbatim>\<open>getWeatherIcon\<close> (lines 40-56). \<^verbatim>\<open>String.prototype.toLowerCase\<close> is the Unicode
  lower-case mapping of the JavaScript runtime; it is the parameter \<open>toLowerCase\<close>, so
  that every result below holds for the runtime's own mapping.
\<close>

definition getWeatherIcon :: "(jsstring \<Rightarrow> jsstring) \<Rightarrow> jsstring \<Rightarrow> icon" where
  "getWeatherIcon toLowerCase w =
     (let weatherLower = toLowerCase w in
      if js_includes weatherLower kw_qing \<or> js_includes weatherLower kw_sunny then Sun
      else if js_includes weatherLower kw_yun \<or> js_includes weatherLower kw_cloud then Cloud
      else if js_includes weatherLower kw_yu \<or> js_includes weatherLower kw_rain then CloudRain
      else if js_includes weatherLower kw_xue \<or> js_includes weatherLower kw_snow then CloudSnow
      else if js_includes weatherLower kw_feng \<or> js_includes weatherLower kw_wind then Wind
      else Sun)"

text \<open>
  The lower-case mapping restricted to Basic Latin (\<open>A\<close>-\<open>Z\<close> to \<open>a\<close>-\<open>z\<close>), used to
  run the classifier on concrete ASCII descriptions.
\<close>

definition lower_unit :: "code_unit \<Rightarrow> code_unit" where
  "lower_unit c = (if 0x41 \<le> c \<and> c \<le> 0x5A then c + 0x20 else c)"

definition toLowerCase_latin :: "jsstring \<Rightarrow> jsstring" where
  "toLowerCase_latin s = map lower_unit s"

text \<open>
  The classifier as the specification words it: the five categories with their keyword
  sets in priority order, the first category with a keyword occurring in the lower-cased
  description wins, and no match gives the clear/sunny icon.
\<close>

definition keyword_table :: "(icon \<times> jsstring list) list" where
  "keyword_table =
     [(Sun, [kw_qing, kw_sunny]), (Cloud, [kw_yun, kw_cloud]), (CloudRain, [kw_yu, kw_rain]),
      (CloudSnow, [kw_xue, kw_snow]), (Wind, [kw_feng, kw_wind])]"

fun first_match :: "(icon \<times> jsstring list) list \<Rightarrow> jsstring \<Rightarrow> icon" where
  "first_match [] s = Sun"
| "first_match ((ic, kws) # rest) s =
     (if list_ex (\<lambda>k. sublist k s) kws then ic else first_match rest s)"

definition classify_spec :: "(jsstring \<Rightarrow> jsstring) \<Rightarrow> jsstring \<Rightarrow> icon" where
  "classify_spec toLowerCase w = first_match keyword_table (toLowerCase w)"

section \<open>The field resolver\<close>

datatype 'n num_or_str = Num 'n | Str jsstring

record 'n currentWeather =
  cw_temperature :: "'n num_or_str"
  cw_weather :: jsstring
  cw_humidity :: "'n num_or_str"
  cw_airQuality :: jsstring

definition empty_weatherInfo :: "'n weatherInfo" where
  \<comment> \<open>the object literal \<^verbatim>\<open>{}\<close> of line 129\<close>
  "empty_weatherInfo =
     \<lparr>temperature = None, humidity = None, weather = None, wind = None,
      airQuality = None, region = None\<rparr>"

definition placeholders :: "'n currentWeather" where
  \<comment> \<open>the object literal of line 126\<close>
  "placeholders =
     \<lparr>cw_temperature = Str str_dashes, cw_weather = str_unknown,
      cw_humidity = Str str_dashes, cw_airQuality = str_dashes\<rparr>"

text \<open>
  \<^verbatim>\<open>getCurrentWeather\<close> (lines 124-136); its argument is the state variable
  \<^verbatim>\<open>weatherData\<close> the closure reads. \<^verbatim>\<open>x ?? d\<close> is \<open>d\<close> exactly when \<open>x\<close> is
  \<^verbatim>\<open>null\<close> or \<^verbatim>\<open>undefined\<close>.
\<close>

definition getCurrentWeather :: "'n JinriShiciData option \<Rightarrow> 'n currentWeather" where
  "getCurrentWeather wd =
     (case wd of
        None \<Rightarrow> placeholders
      | Some p \<Rightarrow>
          (case data p of
             None \<Rightarrow> placeholders
           | Some d \<Rightarrow>
               (let weatherInfo = (case weatherData d of Some wi \<Rightarrow> wi | None \<Rightarrow> empty_weatherInfo)
                in \<lparr>cw_temperature = (case temperature weatherInfo of Some t \<Rightarrow> Num t | None \<Rightarrow> Str str_dashes),
                    cw_weather = (case weather weatherInfo of Some w \<Rightarrow> w | None \<Rightarrow> str_unknown),
                    cw_humidity = (case humidity weatherInfo of Some h \<Rightarrow> Num h | None \<Rightarrow> Str str_dashes),
                    cw_airQuality = (case airQuality weatherInfo of Some a \<Rightarrow> a | None \<Rightarrow> str_dashes)\<rparr>)))"

text \<open>\<^verbatim>\<open>data.weatherData?.region\<close>\<close>

definition weatherData_region :: "'n payload_data \<Rightarrow> jsstring option" where
  "weatherData_region d = (case weatherData d of None \<Rightarrow> None | Some wi \<Rightarrow> region wi)"

text \<open>
  \<^verbatim>\<open>getCityInfo\<close> (lines 141-175); its argument is the state variable
  \<^verbatim>\<open>weatherData\<close> again.
\<close>

definition getCityInfo :: "'n JinriShiciData option \<Rightarrow> jsstring" where
  "getCityInfo wd =
     (case wd of
        None \<Rightarrow> str_unknown_city
      | Some p \<Rightarrow>
          (case data p of
             None \<Rightarrow> str_unknown_city
           | Some d \<Rightarrow>
               (let locationInfo =
                      (if truthy (weatherData_region d) then weatherData_region d
                       else if truthy (region_top d) then region_top d
                       else if truthy (location d) then location d
                       else if truthy (city d) \<or> truthy (province d)
                         then Some (join [middle_dot] (filter_Boolean [province d, city d]))
                       else None)
                in if truthy locationInfo
                   then (case locationInfo of Some l \<Rightarrow> replace_bars l | None \<Rightarrow> str_unknown_location)
                   else str_unknown_location)))"

text \<open>
  The location as the specification words it: the four candidates in order, the first
  that resolves (is present and not empty) wins and has its vertical bars replaced, and
  the "unknown location" placeholder when none resolves. A payload without \<^verbatim>\<open>data\<close>
  has none of the four fields.
\<close>

definition compose_province_city :: "'n payload_data \<Rightarrow> jsstring" where
  "compose_province_city d =
     join [middle_dot] (filter (\<lambda>s. s \<noteq> []) (map (\<lambda>f. case f of None \<Rightarrow> [] | Some s \<Rightarrow> s) [province d, city d]))"

definition location_candidates :: "'n JinriShiciData \<Rightarrow> jsstring list" where
  "location_candidates p =
     (case data p of
        None \<Rightarrow> []
      | Some d \<Rightarrow>
          map (\<lambda>f. case f of None \<Rightarrow> [] | Some s \<Rightarrow> s) [weatherData_region d, region_top d, location d]
          @ [compose_province_city d])"

definition resolveLocation_spec :: "'n JinriShiciData \<Rightarrow> jsstring" where
  "resolveLocation_spec p =
     (case find (\<lambda>s. s \<noteq> []) (location_candidates p) of
        None \<Rightarrow> str_unknown_location
      | Some l \<Rightarrow> replace_bars l)"

section \<open>The component state and its rendering\<close>

text \<open>
  Modelled from the spec: the type \<^verbatim>\<open>WeatherConfig\<close> is imported from \<^verbatim>\<open>../types\<close>,
  which is not among the sources; the specification gives it as
  \<^verbatim>\<open>{ enabled: boolean }\<close>, and \<^verbatim>\<open>enabled\<close> is the only field the component reads.
\<close>

record WeatherConfig =
  enabled :: bool

text \<open>The four \<^verbatim>\<open>useState\<close> variables (lines 34-37).\<close>

record 'n ui_state =
  st_weatherData :: "'n JinriShiciData option"
  loading :: bool
  error :: "jsstring option"
  isHovering :: bool

definition initial_ui :: "'n ui_state" where
  "initial_ui = \<lparr>st_weatherData = None, loading = False, error = None, isHovering = False\<rparr>"

text \<open>\<^verbatim>\<open>!config || !config.enabled\<close> is the negation of \<open>config_enabled\<close>.\<close>

fun config_enabled :: "WeatherConfig option \<Rightarrow> bool" where
  "config_enabled None = False"
| "config_enabled (Some c) = enabled c"

text \<open>
  What the component returns: \<^verbatim>\<open>null\<close>, the loading pill with its text, the error
  pill with its text, or the weather pill with its icon, the children of the
  temperature span, the text of the description span and the text of the tooltip when
  it is shown. Class names and the fixed decoration are left out.
\<close>

datatype 'n view =
    Nothing
  | LoadingPill jsstring
  | ErrorPill jsstring
  | WeatherPill icon "'n num_or_str list" jsstring "jsstring option"

text \<open>The body of the component after the hooks (lines 100-204).\<close>

definition render :: "(jsstring \<Rightarrow> jsstring) \<Rightarrow> WeatherConfig option \<Rightarrow> 'n ui_state \<Rightarrow> 'n view" where
  "render toLowerCase config s =
     (if \<not> config_enabled config then Nothing
      else if loading s then LoadingPill txt_loading
      else if truthy (error s) \<or> st_weatherData s = None then ErrorPill txt_unavailable
      else
        (let currentWeather = getCurrentWeather (st_weatherData s)
         in WeatherPill
              (getWeatherIcon toLowerCase (cw_weather currentWeather))
              [cw_temperature currentWeather, Str str_degC]
              (cw_weather currentWeather)
              (if isHovering s then Some (getCityInfo (st_weatherData s)) else None)))"

section \<open>The fetch\<close>

text \<open>
  What the network and the JSON parser can answer. \<^verbatim>\<open>fetch\<close> rejects on a transport
  failure or resolves with a response; \<^verbatim>\<open>response.json()\<close> rejects on a body that is
  not JSON, and resolves with \<^verbatim>\<open>null\<close> (on which the read of \<^verbatim>\<open>data.status\<close> throws) or
  with an object.
\<close>

datatype 'n json_result = JsonReject | JsonNull | JsonPayload "'n JinriShiciData"

record 'n response =
  ok :: bool
  status_code :: nat  \<comment> \<open>\<^verbatim>\<open>response.status\<close>\<close>
  json :: "'n json_result"

datatype 'n fetch_result = FetchReject | FetchResolve "'n response"

datatype js_exception =
    NetworkError             \<comment> \<open>the rejection of \<^verbatim>\<open>fetch\<close>\<close>
  | ApiError nat             \<comment> \<open>\<^verbatim>\<open>new Error(`JinriShici API error: ${response.status}`)\<close>\<close>
  | JsonSyntaxError          \<comment> \<open>the rejection of \<^verbatim>\<open>response.json()\<close>\<close>
  | NullPropertyRead         \<comment> \<open>the TypeError of \<^verbatim>\<open>data.status\<close> on \<^verbatim>\<open>null\<close>\<close>

text \<open>
  \<^verbatim>\<open>fetchWeather\<close> (lines 64-90) runs in two parts: up to \<^verbatim>\<open>await fetch(...)\<close>, and
  from the answer on. The state setters store absolute values, so the second part acts on
  whatever the state is when the answer arrives.
\<close>

definition fetchWeather_begin :: "'n ui_state \<Rightarrow> 'n ui_state" where
  "fetchWeather_begin s = s\<lparr>loading := True, error := None\<rparr>"

text \<open>The \<^verbatim>\<open>try\<close> block (lines 68-83): \<open>Inl\<close> is the exception it throws.\<close>

definition fetchWeather_try :: "'n fetch_result \<Rightarrow> 'n ui_state \<Rightarrow> js_exception + 'n ui_state" where
  "fetchWeather_try r s =
     (case r of
        FetchReject \<Rightarrow> Inl NetworkError
      | FetchResolve resp \<Rightarrow>
          if \<not> ok resp then Inl (ApiError (status_code resp))
          else
            (case json resp of
               JsonReject \<Rightarrow> Inl JsonSyntaxError
             | JsonNull \<Rightarrow> Inl NullPropertyRead
             | JsonPayload d \<Rightarrow>
                 if status d = str_success then Inr (s\<lparr>st_weatherData := Some d\<rparr>)
                 else Inr (s\<lparr>error := Some (if truthy (message d) then (case message d of Some m \<Rightarrow> m | None \<Rightarrow> msg_fetch_data_failed)
                                            else msg_fetch_data_failed)\<rparr>)))"

text \<open>The \<^verbatim>\<open>catch\<close> clause (lines 84-86); the log line has no effect on the state.\<close>

definition fetchWeather_catch :: "js_exception \<Rightarrow> 'n ui_state \<Rightarrow> 'n ui_state" where
  "fetchWeather_catch err s = s\<lparr>error := Some msg_weather_fetch_failed\<rparr>"

text \<open>The \<^verbatim>\<open>finally\<close> clause (lines 87-89).\<close>

definition fetchWeather_finally :: "'n ui_state \<Rightarrow> 'n ui_state" where
  "fetchWeather_finally s = s\<lparr>loading := False\<rparr>"

definition fetchWeather_settle :: "'n fetch_result \<Rightarrow> 'n ui_state \<Rightarrow> 'n ui_state" where
  "fetchWeather_settle r s =
     fetchWeather_finally
       (case fetchWeather_try r s of
          Inl err \<Rightarrow> fetchWeather_catch err s
        | Inr s' \<Rightarrow> s')"


text \<open>
  The fetch succeeds when the transport answers, the status is OK, the body is a JSON
  object and its \<^verbatim>\<open>status\<close> is \<^verbatim>\<open>"success"\<close>; every other answer is a failure.
\<close>

fun fetch_succeeds :: "'n fetch_result \<Rightarrow> bool" where
  "fetch_succeeds FetchReject = False"
| "fetch_succeeds (FetchResolve resp) =
     (ok resp \<and> (case json resp of JsonPayload d \<Rightarrow> status d = str_success | _ \<Rightarrow> False))"

text \<open>The three failures of the specification's taxonomy.\<close>

fun transport_failure :: "'n fetch_result \<Rightarrow> bool" where
  "transport_failure FetchReject = True"
| "transport_failure (FetchResolve resp) = False"

fun http_failure :: "'n fetch_result \<Rightarrow> bool" where
  "http_failure FetchReject = False"
| "http_failure (FetchResolve resp) = (\<not> ok resp)"

fun application_failure :: "'n fetch_result \<Rightarrow> 'n JinriShiciData option" where
  "application_failure FetchReject = None"
| "application_failure (FetchResolve resp) =
     (if ok resp then (case json resp of JsonPayload d \<Rightarrow> if status d \<noteq> str_success then Some d else None | _ \<Rightarrow> None)
      else None)"

section \<open>The life cycle: effect, timer and events\<close>

text \<open>
  The component instance together with the part of the runtime its effect touches: the
  props, whether it is mounted, the intervals that are set (handle and period in
  milliseconds), the next fresh handle, the handle that the cleanup function returned by
  the last run of the effect will clear (\<open>None\<close> when the effect returned no cleanup),
  and counters of the requests issued and of the requests still unanswered.
\<close>

record 'n component =
  ui :: "'n ui_state"
  config :: "WeatherConfig option"
  mounted :: bool
  timers :: "(nat \<times> nat) list"
  next_handle :: nat
  cleanup :: "nat option"
  issued :: nat
  in_flight :: nat

definition initial_component :: "'n component" where
  "initial_component =
     \<lparr>ui = initial_ui, config = None, mounted = False, timers = [], next_handle = 0,
      cleanup = None, issued = 0, in_flight = 0\<rparr>"

text \<open>A state setter acts on a mounted component only.\<close>

definition set_ui :: "('n ui_state \<Rightarrow> 'n ui_state) \<Rightarrow> 'n component \<Rightarrow> 'n component" where
  "set_ui f c = (if mounted c then c\<lparr>ui := f (ui c)\<rparr> else c)"

text \<open>A call \<^verbatim>\<open>fetchWeather()\<close> up to its \<^verbatim>\<open>await\<close>: the request goes out.\<close>

definition call_fetchWeather :: "'n component \<Rightarrow> 'n component" where
  "call_fetchWeather c =
     (set_ui fetchWeather_begin c)\<lparr>issued := issued c + 1, in_flight := in_flight c + 1\<rparr>"

definition refresh_period :: nat where
  "refresh_period = 10 * 60 * 1000"

text \<open>\<^verbatim>\<open>setInterval(fetchWeather, period)\<close> and \<^verbatim>\<open>clearInterval(h)\<close>.\<close>

definition setInterval :: "nat \<Rightarrow> 'n component \<Rightarrow> nat \<times> 'n component" where
  "setInterval period c =
     (next_handle c, c\<lparr>timers := (next_handle c, period) # timers c, next_handle := next_handle c + 1\<rparr>)"

definition clearInterval :: "nat \<Rightarrow> 'n component \<Rightarrow> 'n component" where
  "clearInterval h c = c\<lparr>timers := filter (\<lambda>t. fst t \<noteq> h) (timers c)\<rparr>"

text \<open>
  The effect (lines 59-98), run with the props' \<^verbatim>\<open>config\<close>: it returns without a
  cleanup when the widget is not enabled, and otherwise fetches, sets the interval and
  returns the cleanup that clears this interval.
\<close>

definition weather_effect :: "WeatherConfig option \<Rightarrow> 'n component \<Rightarrow> 'n component" where
  "weather_effect cfg c =
     (if \<not> config_enabled cfg then c\<lparr>cleanup := None\<rparr>
      else
        (let c1 = call_fetchWeather c;
             (interval, c2) = setInterval refresh_period c1
         in c2\<lparr>cleanup := Some interval\<rparr>))"

text \<open>React calls the cleanup of the last run before the next run and on unmount.\<close>

definition run_cleanup :: "'n component \<Rightarrow> 'n component" where
  "run_cleanup c =
     (case cleanup c of
        None \<Rightarrow> c
      | Some interval \<Rightarrow> (clearInterval interval c)\<lparr>cleanup := None\<rparr>)"

datatype 'n event =
    Mount "WeatherConfig option"
  | SetConfig "WeatherConfig option"   \<comment> \<open>the host passes a new \<^verbatim>\<open>config\<close>\<close>
  | Unmount
  | Tick nat                           \<comment> \<open>the interval with this handle fires\<close>
  | Settle "'n fetch_result"           \<comment> \<open>an unanswered request is answered\<close>
  | MouseEnter
  | MouseLeave

text \<open>An event that cannot happen in the state (a tick of a cleared interval, an answer
  with no request unanswered, a mount of a mounted component) leaves it unchanged.\<close>

fun step :: "'n event \<Rightarrow> 'n component \<Rightarrow> 'n component" where
  "step (Mount cfg) c =
     (if mounted c then c
      else weather_effect cfg (c\<lparr>ui := initial_ui, config := cfg, mounted := True\<rparr>))"
| "step (SetConfig cfg) c =
     (if \<not> mounted c then c
      else weather_effect cfg ((run_cleanup c)\<lparr>config := cfg\<rparr>))"
| "step Unmount c =
     (if \<not> mounted c then c
      else (run_cleanup c)\<lparr>mounted := False\<rparr>)"
| "step (Tick h) c =
     (if h \<in> fst ` set (timers c) then call_fetchWeather c else c)"
| "step (Settle r) c =
     (if in_flight c = 0 then c
      else (set_ui (fetchWeather_settle r) c)\<lparr>in_flight := in_flight c - 1\<rparr>)"
| "step MouseEnter c = set_ui (\<lambda>s. s\<lparr>isHovering := True\<rparr>) c"
| "step MouseLeave c = set_ui (\<lambda>s. s\<lparr>isHovering := False\<rparr>) c"

fun run :: "'n event list \<Rightarrow> 'n component \<Rightarrow> 'n component" where
  "run [] c = c"
| "run (e # es) c = run es (step e c)"

inductive reachable :: "'n component \<Rightarrow> bool" where
  reachable_init: "reachable initial_component"
| reachable_step: "reachable c \<Longrightarrow> reachable (step e c)"

fun is_Mount :: "'n event \<Rightarrow> bool" where
  "is_Mount (Mount cfg) = True"
| "is_Mount e = False"

text \<open>The events after which a fetch can go out by a new run of the effect.\<close>

fun enables :: "'n event \<Rightarrow> bool" where
  "enables (Mount cfg) = config_enabled cfg"
| "enables (SetConfig cfg) = config_enabled cfg"
| "enables e = False"

text \<open>
  The invariant of the reachable states: the error message is never the empty string,
  the intervals that are set are exactly the one the pending cleanup will clear, a cleanup
  is pending exactly while the component is mounted with an enabled configuration, and
  its handle is older than the next fresh one.
\<close>

definition component_inv :: "'n component \<Rightarrow> bool" where
  "component_inv c \<longleftrightarrow>
     error (ui c) \<noteq> Some [] \<and>
     timers c = (case cleanup c of None \<Rightarrow> [] | Some h \<Rightarrow> [(h, refresh_period)]) \<and>
     (cleanup c \<noteq> None \<longleftrightarrow> mounted c \<and> config_enabled (config c)) \<and>
     (\<forall>h. cleanup c = Some h \<longrightarrow> h < next_handle c)"

section \<open>Example payloads and states\<close>

definition no_data_fields :: "int payload_data" where
  "no_data_fields =
     \<lparr>weatherData = None, tags = None, poetryTokens = None, inspirationTokens = None,
      region_top = None, location = None, city = None, province = None\<rparr>"

definition payload_no_data :: "int JinriShiciData" where
  \<comment> \<open>\<^verbatim>\<open>{"status": "success", "message": "ok"}\<close>\<close>
  "payload_no_data = \<lparr>status = str_success, message = Some (ascii ''ok''), data = None\<rparr>"

definition payload_beijing :: "int JinriShiciData" where
  \<comment> \<open>\<^verbatim>\<open>data.location\<close> is the two-character names of Beijing and Chaoyang with a vertical bar between\<close>
  "payload_beijing =
     \<lparr>status = str_success, message = Some (ascii ''ok''),
      data = Some (no_data_fields\<lparr>location := Some [0x5317, 0x4EAC, 0x7C, 0x671D, 0x9633]\<rparr>)\<rparr>"

definition info_zero_empty :: "int weatherInfo" where
  \<comment> \<open>\<^verbatim>\<open>{"temperature": 0, "weather": "", "region": ""}\<close>\<close>
  "info_zero_empty = empty_weatherInfo\<lparr>temperature := Some 0, weather := Some [], region := Some []\<rparr>"

definition data_zero_empty :: "int payload_data" where
  "data_zero_empty = no_data_fields\<lparr>weatherData := Some info_zero_empty, region_top := Some (ascii ''B'')\<rparr>"

definition payload_zero_empty :: "int JinriShiciData" where
  "payload_zero_empty =
     \<lparr>status = str_success, message = Some (ascii ''ok''), data = Some data_zero_empty\<rparr>"

definition data_empty_then_location :: "int payload_data" where
  \<comment> \<open>both regions are empty strings, \<^verbatim>\<open>location\<close> is \<^verbatim>\<open>"L"\<close>, \<^verbatim>\<open>city\<close> is \<^verbatim>\<open>"X"\<close>\<close>
  "data_empty_then_location =
     no_data_fields\<lparr>weatherData := Some (empty_weatherInfo\<lparr>region := Some []\<rparr>),
                    region_top := Some [], location := Some (ascii ''L''),
                    city := Some (ascii ''X'')\<rparr>"

definition payload_empty_then_location :: "int JinriShiciData" where
  "payload_empty_then_location =
     \<lparr>status = str_success, message = Some (ascii ''ok''), data = Some data_empty_then_location\<rparr>"

definition data_empty_then_city :: "int payload_data" where
  \<comment> \<open>\<^verbatim>\<open>region\<close>, \<^verbatim>\<open>location\<close> and \<^verbatim>\<open>province\<close> are empty strings, \<^verbatim>\<open>city\<close> is \<^verbatim>\<open>"X"\<close>\<close>
  "data_empty_then_city =
     no_data_fields\<lparr>region_top := Some [], location := Some [], province := Some [],
                    city := Some (ascii ''X'')\<rparr>"

definition payload_empty_then_city :: "int JinriShiciData" where
  "payload_empty_then_city =
     \<lparr>status = str_success, message = Some (ascii ''ok''), data = Some data_empty_then_city\<rparr>"

definition info_full :: "int weatherInfo" where
  \<comment> \<open>23 degrees, light rain (two characters, the second is the rain keyword), region with a bar\<close>
  "info_full =
     \<lparr>temperature = Some 23, humidity = Some 60, weather = Some [0x5C0F, 0x96E8],
      wind = Some (ascii ''NE 3''), airQuality = Some (ascii ''42''),
      region = Some [0x5317, 0x4EAC, 0x7C, 0x671D, 0x9633]\<rparr>"

definition payload_full :: "int JinriShiciData" where
  "payload_full =
     \<lparr>status = str_success, message = Some (ascii ''ok''),
      data = Some (no_data_fields\<lparr>weatherData := Some info_full\<rparr>)\<rparr>"

definition response_full :: "int response" where
  "response_full = \<lparr>ok = True, status_code = 200, json = JsonPayload payload_full\<rparr>"

definition response_500 :: "int response" where
  "response_500 = \<lparr>ok = False, status_code = 500, json = JsonReject\<rparr>"

definition payload_refused :: "int JinriShiciData" where
  \<comment> \<open>\<^verbatim>\<open>{"status": "error", "message": "quota"}\<close>\<close>
  "payload_refused = \<lparr>status = ascii ''error'', message = Some (ascii ''quota''), data = None\<rparr>"

definition response_refused :: "int response" where
  "response_refused = \<lparr>ok = True, status_code = 200, json = JsonPayload payload_refused\<rparr>"

definition config_on :: "WeatherConfig option" where
  "config_on = Some \<lparr>enabled = True\<rparr>"

definition config_off :: "WeatherConfig option" where
  "config_off = Some \<lparr>enabled = False\<rparr>"

definition ui_showing_full :: "int ui_state" where
  "ui_showing_full =
     \<lparr>st_weatherData = Some payload_full, loading = False, error = None, isHovering = True\<rparr>"

definition mounted_on :: "int component" where
  "mounted_on = step (Mount config_on) initial_component"

definition mounted_off :: "int component" where
  "mounted_off = step (Mount config_off) initial_component"

section \<open>Properties of the string operations\<close>

lemmas literal_defs =
  ascii_def kw_qing_def kw_sunny_def kw_yun_def kw_cloud_def kw_yu_def kw_rain_def
  kw_xue_def kw_snow_def kw_feng_def kw_wind_def str_success_def msg_fetch_data_failed_def
  msg_weather_fetch_failed_def txt_loading_def txt_unavailable_def str_dashes_def
  str_unknown_def str_unknown_city_def str_unknown_location_def middle_dot_def
  vertical_bar_def fullwidth_bar_def str_degC_def

lemma js_includes_sublist: "js_includes s t = sublist t s"
  by (induction s) (auto simp: sublist_Cons_right)

lemma filter_Boolean_conv:
  "filter_Boolean xs =
     filter (\<lambda>s. s \<noteq> []) (map (\<lambda>f. case f of None \<Rightarrow> [] | Some s \<Rightarrow> s) xs)"
  by (induction xs rule: filter_Boolean.induct) simp_all

lemma replace_bars_Nil: "replace_bars s = [] \<longleftrightarrow> s = []"
  by (simp add: replace_bars_def)

lemma replace_bars_no_bar:
  "vertical_bar \<notin> set (replace_bars s) \<and> fullwidth_bar \<notin> set (replace_bars s)"
  by (auto simp: replace_bars_def vertical_bar_def fullwidth_bar_def middle_dot_def)

lemma unknown_nonempty: "str_unknown_city \<noteq> []" "str_unknown_location \<noteq> []"
  by (simp_all add: str_unknown_city_def str_unknown_location_def)

section \<open>The icon classifier\<close>

lemma icon_of_light_rain:
  "getWeatherIcon toLowerCase_latin (ascii ''Light RAIN'') = CloudRain"
  by (simp add: getWeatherIcon_def toLowerCase_latin_def lower_unit_def literal_defs)

lemma icon_of_sunny_with_clouds:
  "getWeatherIcon toLowerCase_latin (ascii ''Clouds, later SUNNY'') = Sun"
  by (simp add: getWeatherIcon_def toLowerCase_latin_def lower_unit_def literal_defs)

lemma icon_of_fog:
  "getWeatherIcon toLowerCase_latin (ascii ''Fog'') = Sun"
  by (simp add: getWeatherIcon_def toLowerCase_latin_def lower_unit_def literal_defs)

text \<open>
  C4. For every weather description the classifier returns the icon of the first of the
  five categories clear/sunny, cloudy, rain, snow, wind, in this order, one of whose
  keywords occurs as a substring of the lower-cased description, and the clear/sunny
  icon when no keyword occurs.
\<close>

theorem getWeatherIcon_priority:
  "getWeatherIcon toLowerCase w = classify_spec toLowerCase w"
  by (simp add: getWeatherIcon_def classify_spec_def keyword_table_def js_includes_sublist Let_def)

section \<open>The location\<close>

lemma getCityInfo_nonempty: "getCityInfo wd \<noteq> []"
proof (cases wd)
  case None
  then show ?thesis by (simp add: getCityInfo_def unknown_nonempty)
next
  case (Some p)
  show ?thesis
  proof (cases "data p")
    case None
    with Some show ?thesis by (simp add: getCityInfo_def unknown_nonempty)
  next
    case (Some d)
    with \<open>wd = Some p\<close> show ?thesis
      by (cases "province d"; cases "city d")
         (auto simp: getCityInfo_def Let_def unknown_nonempty replace_bars_Nil
               split: option.splits)
  qed
qed

lemma location_only_city_and_province:
  "getCityInfo (Some \<lparr>status = str_success, message = None,
      data = Some (no_data_fields\<lparr>city := Some (ascii ''X''), province := Some (ascii ''Y'')\<rparr>)\<rparr>)
   = ascii ''Y'' @ [middle_dot] @ ascii ''X''"
  by (simp add: getCityInfo_def weatherData_region_def no_data_fields_def replace_bars_def literal_defs)

lemma location_weatherData_region_first:
  "getCityInfo (Some \<lparr>status = str_success, message = None,
      data = Some (no_data_fields\<lparr>weatherData := Some (empty_weatherInfo\<lparr>region := Some (ascii ''A'')\<rparr>),
                                  region_top := Some (ascii ''B'')\<rparr>)\<rparr>)
   = ascii ''A''"
  by (simp add: getCityInfo_def weatherData_region_def no_data_fields_def empty_weatherInfo_def
      replace_bars_def literal_defs)

lemma placeholders_no_bar:
  "vertical_bar \<notin> set str_unknown_city" "fullwidth_bar \<notin> set str_unknown_city"
  "vertical_bar \<notin> set str_unknown_location" "fullwidth_bar \<notin> set str_unknown_location"
  by (simp_all add: literal_defs)

lemma getCityInfo_no_bar:
  "vertical_bar \<notin> set (getCityInfo wd) \<and> fullwidth_bar \<notin> set (getCityInfo wd)"
proof -
  have "getCityInfo wd = str_unknown_city \<or> getCityInfo wd = str_unknown_location
          \<or> (\<exists>l. getCityInfo wd = replace_bars l)"
    by (auto simp: getCityInfo_def Let_def split: option.splits)
  then show ?thesis
    using placeholders_no_bar replace_bars_no_bar by metis
qed

text \<open>
  C1, as the specification states it, fails: a payload without a \<^verbatim>\<open>data\<close> object has
  none of the location fields, and the component answers with the "unknown city"
  placeholder, not with the "unknown location" placeholder.
\<close>

theorem getCityInfo_no_data_counterexample:
  "getCityInfo (Some payload_no_data) = str_unknown_city \<and>
   resolveLocation_spec payload_no_data = str_unknown_location \<and>
   getCityInfo (Some payload_no_data) \<noteq> resolveLocation_spec payload_no_data"
  by (simp add: payload_no_data_def getCityInfo_def resolveLocation_spec_def
      location_candidates_def str_unknown_city_def str_unknown_location_def)

text \<open>
  C1, amended. For every payload that has a \<^verbatim>\<open>data\<close> object the location is the first of
  \<^verbatim>\<open>data.weatherData.region\<close>, \<^verbatim>\<open>data.region\<close>, \<^verbatim>\<open>data.location\<close> and the composition of
  \<^verbatim>\<open>data.province\<close> and \<^verbatim>\<open>data.city\<close> (joined by a middle dot, empty parts skipped) that
  resolves, with every vertical bar replaced by the middle dot, and the "unknown location"
  placeholder when none resolves. For a payload without a \<^verbatim>\<open>data\<close> object the location is
  the "unknown city" placeholder. In both cases no vertical bar is left in the location.
\<close>

theorem getCityInfo_fallback_chain:
  "(data p = Some d \<longrightarrow> getCityInfo (Some p) = resolveLocation_spec p) \<and>
   (data p = None \<longrightarrow> getCityInfo (Some p) = str_unknown_city) \<and>
   vertical_bar \<notin> set (getCityInfo (Some p)) \<and> fullwidth_bar \<notin> set (getCityInfo (Some p))"
proof -
  have "(data p = Some d \<longrightarrow> getCityInfo (Some p) = resolveLocation_spec p) \<and>
        (data p = None \<longrightarrow> getCityInfo (Some p) = str_unknown_city)"
  by (cases "weatherData_region d"; cases "region_top d"; cases "location d";
      cases "city d"; cases "province d")
     (auto simp: getCityInfo_def resolveLocation_spec_def location_candidates_def
        compose_province_city_def Let_def)
  with getCityInfo_no_bar [of "Some p"] show ?thesis by simp
qed

theorem getCityInfo_fallback_chain_witness:
  "data payload_beijing = Some (no_data_fields\<lparr>location := Some [0x5317, 0x4EAC, 0x7C, 0x671D, 0x9633]\<rparr>) \<and>
   getCityInfo (Some payload_beijing) = resolveLocation_spec payload_beijing \<and>
   resolveLocation_spec payload_beijing = [0x5317, 0x4EAC, 0xB7, 0x671D, 0x9633] \<and>
   data payload_no_data = None \<and>
   getCityInfo (Some payload_no_data) = str_unknown_city"
proof -
  have h1: "data payload_beijing = Some (no_data_fields\<lparr>location := Some [0x5317, 0x4EAC, 0x7C, 0x671D, 0x9633]\<rparr>)"
    by (simp add: payload_beijing_def)
  have h2: "data payload_no_data = None"
    by (simp add: payload_no_data_def)
  have r: "resolveLocation_spec payload_beijing = [0x5317, 0x4EAC, 0xB7, 0x671D, 0x9633]"
    by (simp add: resolveLocation_spec_def location_candidates_def payload_beijing_def
        no_data_fields_def weatherData_region_def compose_province_city_def replace_bars_def
        literal_defs)
  show ?thesis
    using h1 h2 r
      getCityInfo_fallback_chain [of payload_beijing "no_data_fields\<lparr>location := Some [0x5317, 0x4EAC, 0x7C, 0x671D, 0x9633]\<rparr>"]
      getCityInfo_fallback_chain [of payload_no_data no_data_fields]
    by simp
qed

lemma falsy_iff: "\<not> truthy x \<longleftrightarrow> x \<in> {None, Some []}"
  by (cases x) auto

lemma chain_weatherData_region:
  assumes "data p = Some d" and "weatherData_region d = Some w" and "w \<noteq> []"
  shows "getCityInfo (Some p) = replace_bars w"
  using assms unfolding falsy_iff [symmetric] by (simp add: getCityInfo_def)

lemma chain_region:
  assumes "data p = Some d" and "weatherData_region d \<in> {None, Some []}"
    and "region_top d = Some r" and "r \<noteq> []"
  shows "getCityInfo (Some p) = replace_bars r"
  using assms unfolding falsy_iff [symmetric] by (simp add: getCityInfo_def)

lemma chain_location:
  assumes "data p = Some d" and "weatherData_region d \<in> {None, Some []}"
    and "region_top d \<in> {None, Some []}" and "location d = Some l" and "l \<noteq> []"
  shows "getCityInfo (Some p) = replace_bars l"
  using assms unfolding falsy_iff [symmetric] by (simp add: getCityInfo_def)

lemma chain_province_city:
  assumes "data p = Some d" and "weatherData_region d \<in> {None, Some []}"
    and "region_top d \<in> {None, Some []}" and "location d \<in> {None, Some []}"
    and "province d = Some pr" and "pr \<noteq> []" and "city d = Some c" and "c \<noteq> []"
  shows "getCityInfo (Some p) = replace_bars (pr @ [middle_dot] @ c)"
  using assms unfolding falsy_iff [symmetric] by (simp add: getCityInfo_def)

lemma chain_province_only:
  assumes "data p = Some d" and "weatherData_region d \<in> {None, Some []}"
    and "region_top d \<in> {None, Some []}" and "location d \<in> {None, Some []}"
    and "province d = Some pr" and "pr \<noteq> []" and "city d \<in> {None, Some []}"
  shows "getCityInfo (Some p) = replace_bars pr"
proof (cases "city d")
  case None
  with assms show ?thesis unfolding falsy_iff [symmetric] by (simp add: getCityInfo_def)
next
  case (Some c)
  with assms show ?thesis unfolding falsy_iff [symmetric] by (simp add: getCityInfo_def)
qed

lemma chain_city_only:
  assumes "data p = Some d" and "weatherData_region d \<in> {None, Some []}"
    and "region_top d \<in> {None, Some []}" and "location d \<in> {None, Some []}"
    and "province d \<in> {None, Some []}" and "city d = Some c" and "c \<noteq> []"
  shows "getCityInfo (Some p) = replace_bars c"
proof (cases "province d")
  case None
  with assms show ?thesis unfolding falsy_iff [symmetric] by (simp add: getCityInfo_def)
next
  case (Some pr)
  with assms show ?thesis unfolding falsy_iff [symmetric] by (simp add: getCityInfo_def)
qed

lemma chain_nothing:
  assumes "data p = Some d" and "weatherData_region d \<in> {None, Some []}"
    and "region_top d \<in> {None, Some []}" and "location d \<in> {None, Some []}"
    and "province d \<in> {None, Some []}" and "city d \<in> {None, Some []}"
  shows "getCityInfo (Some p) = str_unknown_location"
  using assms unfolding falsy_iff [symmetric] by (simp add: getCityInfo_def)

lemma empty_field_as_absent:
  assumes "data p = Some d"
  shows "weatherData d = Some wi \<Longrightarrow> region wi = Some [] \<Longrightarrow>
           getCityInfo (Some p)
             = getCityInfo (Some (p\<lparr>data := Some (d\<lparr>weatherData := Some (wi\<lparr>region := None\<rparr>)\<rparr>)\<rparr>))"
    and "region_top d = Some [] \<Longrightarrow>
           getCityInfo (Some p) = getCityInfo (Some (p\<lparr>data := Some (d\<lparr>region_top := None\<rparr>)\<rparr>))"
    and "location d = Some [] \<Longrightarrow>
           getCityInfo (Some p) = getCityInfo (Some (p\<lparr>data := Some (d\<lparr>location := None\<rparr>)\<rparr>))"
    and "city d = Some [] \<Longrightarrow>
           getCityInfo (Some p) = getCityInfo (Some (p\<lparr>data := Some (d\<lparr>city := None\<rparr>)\<rparr>))"
    and "province d = Some [] \<Longrightarrow>
           getCityInfo (Some p) = getCityInfo (Some (p\<lparr>data := Some (d\<lparr>province := None\<rparr>)\<rparr>))"
  using assms
  by (simp_all add: getCityInfo_def weatherData_region_def Let_def filter_Boolean_conv)

text \<open>
  C9. A location field that holds the empty string is treated as absent. At every step of
  the chain a candidate that is absent or empty is passed over and the next candidate that
  is present and not empty gives the location: \<^verbatim>\<open>data.weatherData.region\<close>, then
  \<^verbatim>\<open>data.region\<close>, then \<^verbatim>\<open>data.location\<close>, then province and city joined by a middle dot
  or the one of them that is not empty, and the "unknown location" placeholder when all
  five are absent or empty. The location is never the empty string, and it is the same as
  for the payload with an empty field removed.
\<close>

theorem getCityInfo_empty_string_falls_through:
  "getCityInfo (Some p) \<noteq> [] \<and>
   (data p = Some d \<longrightarrow> weatherData d = Some wi \<longrightarrow> region wi = Some [] \<longrightarrow>
      getCityInfo (Some p)
        = getCityInfo (Some (p\<lparr>data := Some (d\<lparr>weatherData := Some (wi\<lparr>region := None\<rparr>)\<rparr>)\<rparr>))) \<and>
   (data p = Some d \<longrightarrow> region_top d = Some [] \<longrightarrow>
      getCityInfo (Some p) = getCityInfo (Some (p\<lparr>data := Some (d\<lparr>region_top := None\<rparr>)\<rparr>))) \<and>
   (data p = Some d \<longrightarrow> location d = Some [] \<longrightarrow>
      getCityInfo (Some p) = getCityInfo (Some (p\<lparr>data := Some (d\<lparr>location := None\<rparr>)\<rparr>))) \<and>
   (data p = Some d \<longrightarrow> city d = Some [] \<longrightarrow>
      getCityInfo (Some p) = getCityInfo (Some (p\<lparr>data := Some (d\<lparr>city := None\<rparr>)\<rparr>))) \<and>
   (data p = Some d \<longrightarrow> province d = Some [] \<longrightarrow>
      getCityInfo (Some p) = getCityInfo (Some (p\<lparr>data := Some (d\<lparr>province := None\<rparr>)\<rparr>))) \<and>
   (data p = Some d \<longrightarrow> weatherData_region d = Some [] \<longrightarrow> region_top d = Some r \<longrightarrow> r \<noteq> [] \<longrightarrow>
      getCityInfo (Some p) = replace_bars r) \<and>
   (weatherData d = None \<longrightarrow> weatherData_region d = None) \<and>
   (weatherData d = Some wi \<longrightarrow> weatherData_region d = region wi) \<and>
   (data p = Some d \<longrightarrow> weatherData_region d = Some w \<longrightarrow> w \<noteq> [] \<longrightarrow>
      getCityInfo (Some p) = replace_bars w) \<and>
   (data p = Some d \<longrightarrow> weatherData_region d \<in> {None, Some []} \<longrightarrow>
      region_top d = Some r \<longrightarrow> r \<noteq> [] \<longrightarrow>
      getCityInfo (Some p) = replace_bars r) \<and>
   (data p = Some d \<longrightarrow> weatherData_region d \<in> {None, Some []} \<longrightarrow>
      region_top d \<in> {None, Some []} \<longrightarrow> location d = Some l \<longrightarrow> l \<noteq> [] \<longrightarrow>
      getCityInfo (Some p) = replace_bars l) \<and>
   (data p = Some d \<longrightarrow> weatherData_region d \<in> {None, Some []} \<longrightarrow>
      region_top d \<in> {None, Some []} \<longrightarrow> location d \<in> {None, Some []} \<longrightarrow>
      province d = Some pr \<longrightarrow> pr \<noteq> [] \<longrightarrow> city d = Some c \<longrightarrow> c \<noteq> [] \<longrightarrow>
      getCityInfo (Some p) = replace_bars (pr @ [middle_dot] @ c)) \<and>
   (data p = Some d \<longrightarrow> weatherData_region d \<in> {None, Some []} \<longrightarrow>
      region_top d \<in> {None, Some []} \<longrightarrow> location d \<in> {None, Some []} \<longrightarrow>
      province d = Some pr \<longrightarrow> pr \<noteq> [] \<longrightarrow> city d \<in> {None, Some []} \<longrightarrow>
      getCityInfo (Some p) = replace_bars pr) \<and>
   (data p = Some d \<longrightarrow> weatherData_region d \<in> {None, Some []} \<longrightarrow>
      region_top d \<in> {None, Some []} \<longrightarrow> location d \<in> {None, Some []} \<longrightarrow>
      province d \<in> {None, Some []} \<longrightarrow> city d = Some c \<longrightarrow> c \<noteq> [] \<longrightarrow>
      getCityInfo (Some p) = replace_bars c) \<and>
   (data p = Some d \<longrightarrow> weatherData_region d \<in> {None, Some []} \<longrightarrow>
      region_top d \<in> {None, Some []} \<longrightarrow> location d \<in> {None, Some []} \<longrightarrow>
      province d \<in> {None, Some []} \<longrightarrow> city d \<in> {None, Some []} \<longrightarrow>
      getCityInfo (Some p) = str_unknown_location)"
proof (intro conjI impI)
  show "getCityInfo (Some p) \<noteq> []" by (rule getCityInfo_nonempty)
next
  assume "weatherData d = None"
  then show "weatherData_region d = None" by (simp add: weatherData_region_def)
next
  assume "weatherData d = Some wi"
  then show "weatherData_region d = region wi" by (simp add: weatherData_region_def)
next
  assume "data p = Some d" "weatherData_region d = Some []" "region_top d = Some r" "r \<noteq> []"
  then show "getCityInfo (Some p) = replace_bars r"
    by (intro chain_region) simp_all
qed (rule empty_field_as_absent chain_weatherData_region chain_region chain_location
       chain_province_city chain_province_only chain_city_only chain_nothing; assumption)+

theorem getCityInfo_empty_string_falls_through_witness:
  "data payload_zero_empty = Some data_zero_empty \<and>
   weatherData_region data_zero_empty = Some [] \<and>
   region_top data_zero_empty = Some (ascii ''B'') \<and>
   ascii ''B'' \<noteq> [] \<and>
   getCityInfo (Some payload_zero_empty) = ascii ''B'' \<and>
   data payload_empty_then_location = Some data_empty_then_location \<and>
   weatherData_region data_empty_then_location \<in> {None, Some []} \<and>
   region_top data_empty_then_location \<in> {None, Some []} \<and>
   location data_empty_then_location = Some (ascii ''L'') \<and>
   getCityInfo (Some payload_empty_then_location) = ascii ''L'' \<and>
   data payload_empty_then_city = Some data_empty_then_city \<and>
   location data_empty_then_city \<in> {None, Some []} \<and>
   province data_empty_then_city \<in> {None, Some []} \<and>
   city data_empty_then_city = Some (ascii ''X'') \<and>
   getCityInfo (Some payload_empty_then_city) = ascii ''X''"
proof -
  have a1: "data payload_zero_empty = Some data_zero_empty"
    by (simp add: payload_zero_empty_def)
  have a2: "weatherData_region data_zero_empty = Some []"
    by (simp add: weatherData_region_def data_zero_empty_def info_zero_empty_def no_data_fields_def)
  have a3: "region_top data_zero_empty = Some (ascii ''B'')"
    by (simp add: data_zero_empty_def no_data_fields_def)
  have b1: "data payload_empty_then_location = Some data_empty_then_location"
    by (simp add: payload_empty_then_location_def)
  have b2: "weatherData_region data_empty_then_location \<in> {None, Some []}"
    by (simp add: weatherData_region_def data_empty_then_location_def no_data_fields_def
        empty_weatherInfo_def)
  have b3: "region_top data_empty_then_location \<in> {None, Some []}"
    by (simp add: data_empty_then_location_def no_data_fields_def)
  have b4: "location data_empty_then_location = Some (ascii ''L'')"
    by (simp add: data_empty_then_location_def no_data_fields_def)
  have c1: "data payload_empty_then_city = Some data_empty_then_city"
    by (simp add: payload_empty_then_city_def)
  have c2: "weatherData_region data_empty_then_city \<in> {None, Some []}"
    by (simp add: weatherData_region_def data_empty_then_city_def no_data_fields_def)
  have c3: "region_top data_empty_then_city \<in> {None, Some []}"
    and c4: "location data_empty_then_city \<in> {None, Some []}"
    and c5: "province data_empty_then_city \<in> {None, Some []}"
    and c6: "city data_empty_then_city = Some (ascii ''X'')"
    by (simp_all add: data_empty_then_city_def no_data_fields_def)
  have n: "ascii ''B'' \<noteq> []" "ascii ''L'' \<noteq> []" "ascii ''X'' \<noteq> []"
    by (simp_all add: ascii_def)
  have r: "replace_bars (ascii ''B'') = ascii ''B''" "replace_bars (ascii ''L'') = ascii ''L''"
    "replace_bars (ascii ''X'') = ascii ''X''"
    by (simp_all add: replace_bars_def literal_defs)
  have ra: "getCityInfo (Some payload_zero_empty) = replace_bars (ascii ''B'')"
  proof -
    have "data payload_zero_empty = Some data_zero_empty \<longrightarrow>
          weatherData_region data_zero_empty = Some [] \<longrightarrow>
          region_top data_zero_empty = Some (ascii ''B'') \<longrightarrow> ascii ''B'' \<noteq> [] \<longrightarrow>
          getCityInfo (Some payload_zero_empty) = replace_bars (ascii ''B'')"
      using getCityInfo_empty_string_falls_through
              [where p = payload_zero_empty and d = data_zero_empty and wi = info_zero_empty
                 and r = "ascii ''B''" and w = "[]" and l = "[]" and pr = "[]" and c = "[]"]
      by (elim conjE)
    with a1 a2 a3 n(1) show ?thesis by (simp only: simp_thms)
  qed
  have rb: "getCityInfo (Some payload_empty_then_location) = replace_bars (ascii ''L'')"
  proof -
    have "data payload_empty_then_location = Some data_empty_then_location \<longrightarrow>
          weatherData_region data_empty_then_location \<in> {None, Some []} \<longrightarrow>
          region_top data_empty_then_location \<in> {None, Some []} \<longrightarrow>
          location data_empty_then_location = Some (ascii ''L'') \<longrightarrow> ascii ''L'' \<noteq> [] \<longrightarrow>
          getCityInfo (Some payload_empty_then_location) = replace_bars (ascii ''L'')"
      using getCityInfo_empty_string_falls_through
              [where p = payload_empty_then_location and d = data_empty_then_location
                 and wi = info_zero_empty and r = "[]" and w = "[]" and l = "ascii ''L''"
                 and pr = "[]" and c = "[]"]
      by (elim conjE)
    with b1 b2 b3 b4 n(2) show ?thesis by (simp only: simp_thms)
  qed
  have rc: "getCityInfo (Some payload_empty_then_city) = replace_bars (ascii ''X'')"
  proof -
    have "data payload_empty_then_city = Some data_empty_then_city \<longrightarrow>
          weatherData_region data_empty_then_city \<in> {None, Some []} \<longrightarrow>
          region_top data_empty_then_city \<in> {None, Some []} \<longrightarrow>
          location data_empty_then_city \<in> {None, Some []} \<longrightarrow>
          province data_empty_then_city \<in> {None, Some []} \<longrightarrow>
          city data_empty_then_city = Some (ascii ''X'') \<longrightarrow> ascii ''X'' \<noteq> [] \<longrightarrow>
          getCityInfo (Some payload_empty_then_city) = replace_bars (ascii ''X'')"
      using getCityInfo_empty_string_falls_through
              [where p = payload_empty_then_city and d = data_empty_then_city
                 and wi = info_zero_empty and r = "[]" and w = "[]" and l = "[]"
                 and pr = "[]" and c = "ascii ''X''"]
      by (elim conjE)
    with c1 c2 c3 c4 c5 c6 n(3) show ?thesis by (simp only: simp_thms)
  qed
  from a1 a2 a3 n(1) b1 b2 b3 b4 c1 c4 c5 c6 ra rb rc r show ?thesis
    by (simp only: simp_thms)
qed

section \<open>The weather fields\<close>

text \<open>
  C10. When \<^verbatim>\<open>weatherData\<close> is present, each of temperature, weather, humidity and
  airQuality gets its placeholder exactly when the field is absent (null or undefined); a
  present value is kept whatever it is, and the weather pill shows a present temperature
  followed by the degree text and a present description as it is.
\<close>

theorem getCurrentWeather_nullish:
  "data p = Some d \<Longrightarrow> weatherData d = Some wi \<Longrightarrow>
   getCurrentWeather (Some p) =
     \<lparr>cw_temperature = (case temperature wi of None \<Rightarrow> Str str_dashes | Some t \<Rightarrow> Num t),
      cw_weather = (case weather wi of None \<Rightarrow> str_unknown | Some w \<Rightarrow> w),
      cw_humidity = (case humidity wi of None \<Rightarrow> Str str_dashes | Some h \<Rightarrow> Num h),
      cw_airQuality = (case airQuality wi of None \<Rightarrow> str_dashes | Some a \<Rightarrow> a)\<rparr> \<and>
   (\<forall>t w. temperature wi = Some t \<and> weather wi = Some w \<and> config_enabled cfg \<longrightarrow>
      render toLowerCase cfg
          \<lparr>st_weatherData = Some p, loading = False, error = None, isHovering = False\<rparr>
        = WeatherPill (getWeatherIcon toLowerCase w) [Num t, Str str_degC] w None)"
  by (simp add: getCurrentWeather_def render_def Let_def)

theorem getCurrentWeather_nullish_witness:
  "data payload_zero_empty = Some data_zero_empty \<and>
   weatherData data_zero_empty = Some info_zero_empty \<and>
   temperature info_zero_empty = Some 0 \<and> weather info_zero_empty = Some [] \<and>
   config_enabled config_on \<and>
   cw_temperature (getCurrentWeather (Some payload_zero_empty)) = Num 0 \<and>
   cw_weather (getCurrentWeather (Some payload_zero_empty)) = [] \<and>
   render toLowerCase_latin config_on
       \<lparr>st_weatherData = Some payload_zero_empty, loading = False, error = None, isHovering = False\<rparr>
     = WeatherPill Sun [Num 0, Str str_degC] [] None"
proof -
  have h1: "data payload_zero_empty = Some data_zero_empty"
    by (simp add: payload_zero_empty_def)
  have h2: "weatherData data_zero_empty = Some info_zero_empty"
    by (simp add: data_zero_empty_def no_data_fields_def)
  have h3: "temperature info_zero_empty = Some 0 \<and> weather info_zero_empty = Some []"
    by (simp add: info_zero_empty_def empty_weatherInfo_def)
  have h4: "getWeatherIcon toLowerCase_latin [] = Sun"
    by (simp add: getWeatherIcon_def toLowerCase_latin_def literal_defs)
  have h5: "config_enabled config_on"
    by (simp add: config_on_def)
  show ?thesis
    using h1 h2 h3 h4 h5
      getCurrentWeather_nullish [OF h1 h2, of config_on toLowerCase_latin]
    by simp
qed

section \<open>The fetch\<close>

lemma msgs_nonempty: "msg_fetch_data_failed \<noteq> []" "msg_weather_fetch_failed \<noteq> []"
  by (simp_all add: literal_defs)

lemma settle_failure_error:
  "\<not> fetch_succeeds r \<Longrightarrow> truthy (error (fetchWeather_settle r s))"
  by (cases r)
     (auto simp: fetchWeather_settle_def fetchWeather_try_def fetchWeather_catch_def
        fetchWeather_finally_def msgs_nonempty split: json_result.splits option.splits)

lemma settle_loading: "loading (fetchWeather_settle r s) = False"
  by (cases r)
     (auto simp: fetchWeather_settle_def fetchWeather_try_def fetchWeather_catch_def
        fetchWeather_finally_def split: json_result.splits)

text \<open>
  C7. When the fetch yields a payload whose status is "success", the stored snapshot
  becomes exactly this payload, whatever was stored before; when the fetch fails, the
  stored snapshot is the one from before.
\<close>

theorem snapshot_replaced_or_kept:
  "(ok resp \<and> json resp = JsonPayload d \<and> status d = str_success \<longrightarrow>
      st_weatherData (fetchWeather_settle (FetchResolve resp) s) = Some d) \<and>
   (\<not> fetch_succeeds r \<longrightarrow> st_weatherData (fetchWeather_settle r s) = st_weatherData s)"
  by (cases r)
     (auto simp: fetchWeather_settle_def fetchWeather_try_def fetchWeather_catch_def
        fetchWeather_finally_def split: json_result.splits)

theorem snapshot_replaced_or_kept_witness:
  "ok response_full \<and> json response_full = JsonPayload payload_full \<and>
   status payload_full = str_success \<and>
   st_weatherData (fetchWeather_settle (FetchResolve response_full) initial_ui) = Some payload_full \<and>
   \<not> fetch_succeeds (FetchResolve response_500) \<and>
   st_weatherData (fetchWeather_settle (FetchResolve response_500) ui_showing_full) = Some payload_full"
proof -
  have h1: "ok response_full \<and> json response_full = JsonPayload payload_full"
    by (simp add: response_full_def)
  have h2: "status payload_full = str_success"
    by (simp add: payload_full_def)
  have h3: "\<not> fetch_succeeds (FetchResolve response_500)"
    by (simp add: response_500_def)
  have h4: "st_weatherData ui_showing_full = Some payload_full"
    by (simp add: ui_showing_full_def)
  show ?thesis
    using h1 h2 h3 h4
      snapshot_replaced_or_kept [of response_full payload_full initial_ui]
      snapshot_replaced_or_kept [of _ _ ui_showing_full "FetchResolve response_500"]
    by simp
qed

text \<open>
  C2. Every failed fetch (a transport failure, a status that is not OK, a body that is no
  payload, or a payload whose status is not "success") leaves the loading flag cleared and
  a non-empty error message: the message of the catch clause for a transport or HTTP
  failure, the payload's message for an application failure, or the default when that
  message is missing or empty. The exception of the try block ends in the catch clause,
  so the call always completes, and an enabled widget then shows the error pill with the
  "weather unavailable" text.
\<close>

theorem fetch_failure_handled:
  assumes "\<not> fetch_succeeds r" and "config_enabled cfg"
  shows "loading (fetchWeather_settle r s) = False \<and>
         (\<exists>m. error (fetchWeather_settle r s) = Some m \<and> m \<noteq> []) \<and>
         (transport_failure r \<or> http_failure r \<longrightarrow>
            error (fetchWeather_settle r s) = Some msg_weather_fetch_failed) \<and>
         (\<forall>d. application_failure r = Some d \<longrightarrow>
            error (fetchWeather_settle r s)
              = Some (case message d of
                        None \<Rightarrow> msg_fetch_data_failed
                      | Some m \<Rightarrow> if m = [] then msg_fetch_data_failed else m)) \<and>
         render toLowerCase cfg (fetchWeather_settle r s) = ErrorPill txt_unavailable"
proof -
  have t: "truthy (error (fetchWeather_settle r s))"
    using assms(1) by (rule settle_failure_error)
  have l: "loading (fetchWeather_settle r s) = False" by (rule settle_loading)
  have e: "\<exists>m. error (fetchWeather_settle r s) = Some m \<and> m \<noteq> []"
    using t by (cases "error (fetchWeather_settle r s)") simp_all
  have x: "transport_failure r \<or> http_failure r \<longrightarrow>
            error (fetchWeather_settle r s) = Some msg_weather_fetch_failed"
    by (cases r)
       (auto simp: fetchWeather_settle_def fetchWeather_try_def fetchWeather_catch_def
          fetchWeather_finally_def)
  have a: "\<forall>d. application_failure r = Some d \<longrightarrow>
            error (fetchWeather_settle r s)
              = Some (case message d of
                        None \<Rightarrow> msg_fetch_data_failed
                      | Some m \<Rightarrow> if m = [] then msg_fetch_data_failed else m)"
    by (cases r)
       (auto simp: fetchWeather_settle_def fetchWeather_try_def fetchWeather_catch_def
          fetchWeather_finally_def split: json_result.splits option.splits if_splits)
  have v: "render toLowerCase cfg (fetchWeather_settle r s) = ErrorPill txt_unavailable"
    using t l assms(2) by (simp add: render_def)
  from l e x a v show ?thesis by blast
qed

theorem fetch_failure_handled_witness:
  "\<not> fetch_succeeds (FetchResolve response_500) \<and> config_enabled config_on \<and>
   http_failure (FetchResolve response_500) \<and>
   loading (fetchWeather_settle (FetchResolve response_500) (fetchWeather_begin ui_showing_full)) = False \<and>
   error (fetchWeather_settle (FetchResolve response_500) (fetchWeather_begin ui_showing_full))
     = Some msg_weather_fetch_failed \<and>
   render toLowerCase_latin config_on
       (fetchWeather_settle (FetchResolve response_500) (fetchWeather_begin ui_showing_full))
     = ErrorPill txt_unavailable \<and>
   \<not> fetch_succeeds (FetchResolve response_refused) \<and>
   application_failure (FetchResolve response_refused) = Some payload_refused \<and>
   error (fetchWeather_settle (FetchResolve response_refused) (fetchWeather_begin ui_showing_full))
     = Some (ascii ''quota'')"
proof -
  have h1: "\<not> fetch_succeeds (FetchResolve response_500)"
    by (simp add: response_500_def)
  have h2: "config_enabled config_on"
    by (simp add: config_on_def)
  have h3: "http_failure (FetchResolve response_500)"
    by (simp add: response_500_def)
  have h4: "\<not> fetch_succeeds (FetchResolve response_refused)"
    by (simp add: response_refused_def payload_refused_def literal_defs)
  have h5: "application_failure (FetchResolve response_refused) = Some payload_refused"
    by (simp add: response_refused_def payload_refused_def literal_defs)
  have h6: "message payload_refused = Some (ascii ''quota'') \<and> ascii ''quota'' \<noteq> []"
    by (simp add: payload_refused_def ascii_def)
  show ?thesis
    using h1 h2 h3 h4 h5 h6
      fetch_failure_handled [OF h1 h2, of "fetchWeather_begin ui_showing_full" toLowerCase_latin]
      fetch_failure_handled [OF h4 h2, of "fetchWeather_begin ui_showing_full" toLowerCase_latin]
    by simp
qed



section \<open>The life cycle\<close>

lemma settle_error_nonempty:
  "error s \<noteq> Some [] \<Longrightarrow> error (fetchWeather_settle r s) \<noteq> Some []"
  by (cases r)
     (auto simp: fetchWeather_settle_def fetchWeather_try_def fetchWeather_catch_def
        fetchWeather_finally_def msgs_nonempty split: json_result.splits option.splits if_splits)

lemma inv_step: "component_inv c \<Longrightarrow> component_inv (step e c)"
proof (cases e)
  case (Mount cfg)
  assume "component_inv c"
  then show ?thesis unfolding Mount
    by (auto simp: component_inv_def weather_effect_def call_fetchWeather_def set_ui_def
        setInterval_def fetchWeather_begin_def initial_ui_def Let_def split: option.splits)
next
  case (SetConfig cfg)
  assume "component_inv c"
  then show ?thesis unfolding SetConfig
    by (auto simp: component_inv_def weather_effect_def call_fetchWeather_def set_ui_def
        setInterval_def fetchWeather_begin_def run_cleanup_def clearInterval_def Let_def
        split: option.splits)
next
  case Unmount
  assume "component_inv c"
  then show ?thesis unfolding Unmount
    by (auto simp: component_inv_def run_cleanup_def clearInterval_def split: option.splits)
next
  case (Tick h)
  assume "component_inv c"
  then show ?thesis unfolding Tick
    by (auto simp: component_inv_def call_fetchWeather_def set_ui_def fetchWeather_begin_def
        split: option.splits)
next
  case (Settle r)
  assume "component_inv c"
  then show ?thesis unfolding Settle
    by (auto simp: component_inv_def set_ui_def settle_error_nonempty split: option.splits)
next
  case MouseEnter
  assume "component_inv c"
  then show ?thesis unfolding MouseEnter
    by (auto simp: component_inv_def set_ui_def split: option.splits)
next
  case MouseLeave
  assume "component_inv c"
  then show ?thesis unfolding MouseLeave
    by (auto simp: component_inv_def set_ui_def split: option.splits)
qed

lemma reachable_inv: "reachable c \<Longrightarrow> component_inv c"
proof (induction rule: reachable.induct)
  case reachable_init
  show ?case by (simp add: component_inv_def initial_component_def initial_ui_def)
next
  case (reachable_step c e)
  then show ?case by (simp add: inv_step)
qed

lemma mounted_on_reachable: "reachable mounted_on"
  unfolding mounted_on_def by (intro reachable_step reachable_init)



lemma quiet_step:
  "timers c = [] \<Longrightarrow> cleanup c = None \<Longrightarrow> \<not> enables e \<Longrightarrow>
     timers (step e c) = [] \<and> cleanup (step e c) = None \<and> issued (step e c) = issued c"
  by (cases e) (auto simp: weather_effect_def run_cleanup_def set_ui_def)

lemma quiet_run:
  "timers c = [] \<Longrightarrow> cleanup c = None \<Longrightarrow> \<not> list_ex enables es \<Longrightarrow>
     timers (run es c) = [] \<and> issued (run es c) = issued c"
proof (induction es arbitrary: c)
  case Nil
  then show ?case by simp
next
  case (Cons e es)
  from Cons.prems have q: "timers (step e c) = [] \<and> cleanup (step e c) = None \<and> issued (step e c) = issued c"
    by (simp add: quiet_step)
  with Cons.IH [of "step e c"] Cons.prems show ?case by simp
qed

text \<open>
  C6. When the configuration is absent or not enabled, the component renders nothing, a
  run of the effect issues no request and sets no interval, and in a reachable state with
  such a configuration no interval is set and no request goes out until the host mounts
  or configures the widget as enabled.
\<close>

theorem disabled_no_fetch_no_output:
  assumes "\<not> config_enabled cfg"
  shows "render toLowerCase cfg s = Nothing \<and>
         issued (weather_effect cfg c) = issued c \<and>
         in_flight (weather_effect cfg c) = in_flight c \<and>
         timers (weather_effect cfg c) = timers c \<and>
         (reachable c \<and> config c = cfg \<longrightarrow>
            timers c = [] \<and>
            (\<forall>es. \<not> list_ex enables es \<longrightarrow> issued (run es c) = issued c))"
proof -
  have a: "render toLowerCase cfg s = Nothing"
    using assms by (simp add: render_def)
  have b: "weather_effect cfg c = c\<lparr>cleanup := None\<rparr>"
    using assms by (simp add: weather_effect_def)
  have d: "reachable c \<and> config c = cfg \<longrightarrow>
            timers c = [] \<and> (\<forall>es. \<not> list_ex enables es \<longrightarrow> issued (run es c) = issued c)"
  proof (intro impI, elim conjE)
    assume r: "reachable c" and k: "config c = cfg"
    from reachable_inv [OF r] k assms have q: "cleanup c = None" "timers c = []"
      by (auto simp: component_inv_def)
    then show "timers c = [] \<and> (\<forall>es. \<not> list_ex enables es \<longrightarrow> issued (run es c) = issued c)"
      by (simp add: quiet_run)
  qed
  from a b d show ?thesis by simp
qed

theorem disabled_no_fetch_no_output_witness:
  "\<not> config_enabled config_off \<and> \<not> config_enabled None \<and>
   render toLowerCase_latin config_off ui_showing_full = Nothing \<and>
   render toLowerCase_latin None ui_showing_full = Nothing \<and>
   reachable mounted_off \<and> config mounted_off = config_off \<and>
   issued mounted_off = 0 \<and> timers mounted_off = [] \<and>
   issued (run [Tick 0, SetConfig None, MouseEnter, Tick 0] mounted_off) = 0"
proof -
  have h1: "\<not> config_enabled config_off" by (simp add: config_off_def)
  have h2: "\<not> config_enabled None" by simp
  have r: "reachable mounted_off"
    unfolding mounted_off_def by (intro reachable_step reachable_init)
  have k: "config mounted_off = config_off"
    by (simp add: mounted_off_def initial_component_def weather_effect_def config_off_def)
  have z: "issued mounted_off = 0"
    by (simp add: mounted_off_def initial_component_def weather_effect_def config_off_def)
  have q: "\<not> list_ex enables [Tick 0, SetConfig None, MouseEnter, Tick 0 :: int event]"
    by simp
  note A = disabled_no_fetch_no_output [OF h1, of toLowerCase_latin ui_showing_full mounted_off]
  note B = disabled_no_fetch_no_output [OF h2, of toLowerCase_latin ui_showing_full mounted_off]
  from A have a: "render toLowerCase_latin config_off ui_showing_full = Nothing"
    by blast
  from B have b: "render toLowerCase_latin None ui_showing_full = Nothing"
    by blast
  from A r k have t: "timers mounted_off = []"
    by blast
  from A r k q have n: "issued (run [Tick 0, SetConfig None, MouseEnter, Tick 0] mounted_off) = issued mounted_off"
    by blast
  show ?thesis
    using h1 h2 r k z a b t n by (simp del: step.simps run.simps)
qed

lemma unmounted_step:
  "\<not> mounted c \<Longrightarrow> timers c = [] \<Longrightarrow> \<not> is_Mount e \<Longrightarrow>
     \<not> mounted (step e c) \<and> timers (step e c) = [] \<and> issued (step e c) = issued c"
  by (cases e) (auto simp: set_ui_def)

lemma unmounted_run:
  "\<not> mounted c \<Longrightarrow> timers c = [] \<Longrightarrow> \<not> list_ex is_Mount es \<Longrightarrow>
     timers (run es c) = [] \<and> issued (run es c) = issued c"
proof (induction es arbitrary: c)
  case Nil
  then show ?case by simp
next
  case (Cons e es)
  from Cons.prems have q: "\<not> mounted (step e c) \<and> timers (step e c) = [] \<and> issued (step e c) = issued c"
    by (simp add: unmounted_step)
  with Cons.IH [of "step e c"] Cons.prems show ?case by simp
qed

lemma unmount_clears:
  "component_inv c \<Longrightarrow>
     \<not> mounted (step Unmount c) \<and> timers (step Unmount c) = [] \<and> issued (step Unmount c) = issued c"
  by (auto simp: component_inv_def run_cleanup_def clearInterval_def split: option.splits)

lemma setConfig_timers:
  "component_inv c \<Longrightarrow> mounted c \<Longrightarrow>
     timers (step (SetConfig cfg) c)
       = (if config_enabled cfg then [(next_handle c, refresh_period)] else [])"
  by (auto simp: component_inv_def weather_effect_def call_fetchWeather_def set_ui_def
        setInterval_def run_cleanup_def clearInterval_def Let_def split: option.splits)

text \<open>
  C8. From every reachable state, unmounting clears the interval, and afterwards no tick
  and no other event short of a new mount issues a request; a change of the configuration
  clears the old interval (an enabled configuration sets one new interval); a mounted
  enabled widget has exactly one interval, of ten minutes, and an unmounted one has none.
\<close>

theorem timer_cancelled_on_teardown:
  assumes "reachable c"
  shows "timers (step Unmount c) = [] \<and>
         (\<forall>es. \<not> list_ex is_Mount es \<longrightarrow>
            issued (run es (step Unmount c)) = issued c \<and> timers (run es (step Unmount c)) = []) \<and>
         (\<forall>cfg h. mounted c \<and> cleanup c = Some h \<longrightarrow>
            h \<notin> fst ` set (timers (step (SetConfig cfg) c)) \<and>
            timers (step (SetConfig cfg) c)
              = (if config_enabled cfg then [(next_handle c, refresh_period)] else [])) \<and>
         (mounted c \<and> config_enabled (config c) \<longrightarrow> (\<exists>h. timers c = [(h, 10 * 60 * 1000)])) \<and>
         (\<not> mounted c \<longrightarrow> timers c = [])"
proof -
  note i = reachable_inv [OF assms]
  from unmount_clears [OF i]
  have u: "\<not> mounted (step Unmount c)" "timers (step Unmount c) = []"
    "issued (step Unmount c) = issued c"
    by simp_all
  have a: "\<forall>es. \<not> list_ex is_Mount es \<longrightarrow>
            issued (run es (step Unmount c)) = issued c \<and> timers (run es (step Unmount c)) = []"
    using unmounted_run [OF u(1) u(2)] u(3) by simp
  have b: "\<forall>cfg h. mounted c \<and> cleanup c = Some h \<longrightarrow>
            h \<notin> fst ` set (timers (step (SetConfig cfg) c)) \<and>
            timers (step (SetConfig cfg) c)
              = (if config_enabled cfg then [(next_handle c, refresh_period)] else [])"
  proof (intro allI impI, elim conjE)
    fix cfg h
    assume m: "mounted c" and k: "cleanup c = Some h"
    from i k have lt: "h < next_handle c" by (simp add: component_inv_def)
    have eq: "timers (step (SetConfig cfg) c)
                = (if config_enabled cfg then [(next_handle c, refresh_period)] else [])"
      by (rule setConfig_timers [OF i m])
    from lt have "h \<notin> fst ` set (if config_enabled cfg then [(next_handle c, refresh_period)] else [])"
      by auto
    then show "h \<notin> fst ` set (timers (step (SetConfig cfg) c)) \<and>
            timers (step (SetConfig cfg) c)
              = (if config_enabled cfg then [(next_handle c, refresh_period)] else [])"
      unfolding eq by simp
  qed
  have d: "mounted c \<and> config_enabled (config c) \<longrightarrow> (\<exists>h. timers c = [(h, 10 * 60 * 1000)])"
    using i by (auto simp: component_inv_def refresh_period_def split: option.splits)
  have e: "\<not> mounted c \<longrightarrow> timers c = []"
    using i by (auto simp: component_inv_def split: option.splits)
  from u(2) a b d e show ?thesis by blast
qed

theorem timer_cancelled_on_teardown_witness:
  "reachable mounted_on \<and> timers mounted_on = [(0, 600000)] \<and> issued mounted_on = 1 \<and>
   timers (step Unmount mounted_on) = [] \<and>
   issued (run [Tick 0, Settle FetchReject, Tick 0] (step Unmount mounted_on)) = 1"
proof -
  have t: "timers mounted_on = [(0, 600000)]"
    by (simp add: mounted_on_def initial_component_def weather_effect_def config_on_def
        call_fetchWeather_def set_ui_def setInterval_def refresh_period_def Let_def)
  have n: "issued mounted_on = 1"
    by (simp add: mounted_on_def initial_component_def weather_effect_def config_on_def
        call_fetchWeather_def set_ui_def setInterval_def Let_def)
  have m: "\<not> list_ex is_Mount [Tick 0, Settle FetchReject, Tick 0 :: int event]"
    by simp
  note T = timer_cancelled_on_teardown [OF mounted_on_reachable]
  from T have a: "timers (step Unmount mounted_on) = []"
    by blast
  from T m have b: "issued (run [Tick 0, Settle FetchReject, Tick 0] (step Unmount mounted_on))
                      = issued mounted_on"
    by blast
  show ?thesis
    using mounted_on_reachable t n a b by (simp del: step.simps run.simps)
qed

end
